theory Spec2Isabelle
  imports Main "HOL-Library.Word" "HOL-Library.Char_ord" "HOL-Library.List_Lexorder"
    "HOL-Library.Multiset"
begin

section \<open>The containers widget of appui/containers.go\<close>

text \<open>
  The widget \<^verbatim>\<open>ContainersWidget\<close> keeps a slice of container rows, a sort mode, a
  filter pattern, a selection index and the bounds of the visible window. Its methods
  mutate the struct in place; here every method takes the struct and returns the new one.
  Go's \<^verbatim>\<open>int\<close> is a 64-bit two's complement integer: \<open>+\<close> and \<open>-\<close> wrap, the
  comparisons are the signed ones (\<open><s\<close>, \<open>\<le>s\<close>).
\<close>

subsection \<open>Data\<close>

type_synonym goint = "64 word"

text \<open>
  Modelled from the spec: the type \<^verbatim>\<open>docker.SortMode\<close> is declared outside
  \<^verbatim>\<open>appui/containers.go\<close>. The spec lists it as an enumeration of NoSort and the four
  sort criteria, NoSort being the initial default (the zero value of the type).
\<close>

datatype SortMode = NoSort | SortByContainerID | SortByImage | SortByStatus | SortByName

text \<open>
  A \<^verbatim>\<open>ContainerRow\<close>: the identifier of the wrapped container (\<^verbatim>\<open>container.ID\<close>), the
  texts of the columns the widget reads (\<^verbatim>\<open>ID.Text\<close>, \<^verbatim>\<open>Image.Text\<close>, \<^verbatim>\<open>Status.Text\<close>,
  \<^verbatim>\<open>Names.Text\<close>) and the highlight flag set by \<^verbatim>\<open>Highlighted()\<close> and
  \<^verbatim>\<open>NotHighlighted()\<close>. The widget holds pointers to rows; \<^verbatim>\<open>Mount\<close> allocates one row
  per container, so the rows of the slice are distinct objects and the slice is modelled
  as a list of row values. The screen geometry of rows and header (\<^verbatim>\<open>SetX\<close>, \<^verbatim>\<open>SetY\<close>,
  \<^verbatim>\<open>SetWidth\<close>, \<^verbatim>\<open>GetHeight\<close> of the termui package) belongs to the canvas and is left out.
\<close>

record ContainerRow =
  containerID :: string
  IDText :: string
  ImageText :: string
  StatusText :: string
  NamesText :: string
  highlighted :: bool

record SortableColumnHeader =
  Title :: string
  Mode :: SortMode

definition containerTableHeaders :: "SortableColumnHeader list" where
  "containerTableHeaders =
    [\<lparr>Title = [], Mode = NoSort\<rparr>,
     \<lparr>Title = ''CONTAINER'', Mode = SortByContainerID\<rparr>,
     \<lparr>Title = ''IMAGE'', Mode = SortByImage\<rparr>,
     \<lparr>Title = ''COMMAND'', Mode = NoSort\<rparr>,
     \<lparr>Title = ''STATUS'', Mode = SortByStatus\<rparr>,
     \<lparr>Title = ''PORTS'', Mode = NoSort\<rparr>,
     \<lparr>Title = ''NAMES'', Mode = SortByName\<rparr>]"

text \<open>
  The struct records whether the embedded \<^verbatim>\<open>sync.RWMutex\<close> is held and, as a history
  of the run, the events so far: the lock was taken, the lock was released, or a
  statement in the body of a locking method read or wrote the struct, with the lock held
  or not at that moment.
\<close>

datatype LockEvent = Acquire | Release | Touch bool

text \<open>
  The struct. \<^verbatim>\<open>header\<close> points to the package-level \<^verbatim>\<open>defaultContainerTableHeader\<close>,
  which all widgets share; \<open>header\<close> holds the texts of its columns, in order, as they
  are when a method of this widget runs.
  The field \<^verbatim>\<open>dockerDaemon\<close> is the parameter \<open>daemon\<close> of \<open>Mount\<close>; the field
  \<^verbatim>\<open>filters\<close> is never read or written.
\<close>

record ContainersWidget =
  containers :: "ContainerRow list"
  showAllContainers :: bool
  header :: "string list"
  sortMode :: SortMode
  filterPattern :: string
  mounted :: bool
  selectedIndex :: goint
  x :: goint
  y :: goint
  height :: goint
  width :: goint
  startIndex :: goint
  endIndex :: goint
  lockHeld :: bool
  lockTrace :: "LockEvent list"

text \<open>A run-time panic of Go, and the error value made by \<^verbatim>\<open>errors.New\<close>.\<close>

datatype Panic = SliceBoundsOutOfRange | IndexOutOfRange

datatype GoError = ErrorString string

subsection \<open>Slices and strings\<close>

text \<open>\<^verbatim>\<open>len(xs)\<close> as a Go \<^verbatim>\<open>int\<close>.\<close>

definition len :: "'a list \<Rightarrow> goint" where
  "len xs = of_nat (length xs)"

text \<open>
  The slice expression \<^verbatim>\<open>xs[lo:hi]\<close>. It panics unless \<open>0 \<le> lo \<le> hi \<le> cap xs\<close>; the
  slice built by \<^verbatim>\<open>Mount\<close> has its capacity equal to its length, and a filtered slice is
  taken to have no spare capacity either.
\<close>

definition sliceOf :: "'a list \<Rightarrow> goint \<Rightarrow> goint \<Rightarrow> Panic + 'a list" where
  "sliceOf xs lo hi =
    (if 0 \<le>s lo \<and> lo \<le>s hi \<and> sint hi \<le> int (length xs)
     then Inr (take (nat (sint hi) - nat (sint lo)) (drop (nat (sint lo)) xs))
     else Inl SliceBoundsOutOfRange)"

text \<open>The index expression \<^verbatim>\<open>xs[i]\<close>.\<close>

definition elemAt :: "'a list \<Rightarrow> goint \<Rightarrow> Panic + 'a" where
  "elemAt xs i =
    (if 0 \<le>s i \<and> sint i < int (length xs) then Inr (xs ! nat (sint i))
     else Inl IndexOutOfRange)"

text \<open>\<^verbatim>\<open>strings.HasPrefix\<close> and \<^verbatim>\<open>strings.Contains\<close> on byte strings.\<close>

fun hasPrefix :: "string \<Rightarrow> string \<Rightarrow> bool" where
  "hasPrefix s [] = True"
| "hasPrefix [] (p # ps) = False"
| "hasPrefix (c # cs) (p # ps) = (c = p \<and> hasPrefix cs ps)"

fun contains :: "string \<Rightarrow> string \<Rightarrow> bool" where
  "contains [] sub = (sub = [])"
| "contains (c # cs) sub = (hasPrefix (c # cs) sub \<or> contains cs sub)"

subsection \<open>The viewport\<close>

text \<open>
  \<^verbatim>\<open>applyFilters\<close>. The filter \<^verbatim>\<open>containerRowFilters.ByName(pattern).Apply\<close> is declared
  outside this file and is the parameter \<open>byName\<close>.
\<close>

definition applyFilters ::
  "(string \<Rightarrow> ContainerRow list \<Rightarrow> ContainerRow list) \<Rightarrow> ContainersWidget \<Rightarrow> ContainerRow list"
where
  "applyFilters byName s =
    (if filterPattern s \<noteq> [] then byName (filterPattern s) (containers s)
     else containers s)"

text \<open>
  \<^verbatim>\<open>visibleRows\<close>. \<open>selected\<close> is the value read from
  \<^verbatim>\<open>ui.ActiveScreen.Cursor.Position()\<close>. The bounds are stored before the slice
  expression is evaluated, so they are part of the state also when it panics.
\<close>

definition visibleRows ::
  "(string \<Rightarrow> ContainerRow list \<Rightarrow> ContainerRow list) \<Rightarrow> goint \<Rightarrow> ContainersWidget
    \<Rightarrow> (Panic + ContainerRow list) \<times> ContainersWidget"
where
  "visibleRows byName selected s =
    (if height s <s 0 then (Inr [], s)
     else
       let rows = applyFilters byName s;
           count = len rows
       in if count \<le>s height s then (Inr rows, s)
          else
            let s' =
              (if selected = 0 then
                 s\<lparr>startIndex := 0, endIndex := height s\<rparr>
               else if count - 1 \<le>s selected then
                 s\<lparr>startIndex := count - height s, endIndex := count\<rparr>
               else if selected = endIndex s then
                 s\<lparr>startIndex := startIndex s + 1, endIndex := endIndex s + 1\<rparr>
               else if selected \<le>s startIndex s then
                 s\<lparr>startIndex := startIndex s - 1, endIndex := endIndex s - 1\<rparr>
               else if endIndex s <s selected then
                 s\<lparr>startIndex := selected - height s, endIndex := selected\<rparr>
               else s)
            in (sliceOf rows (startIndex s') (endIndex s'), s'))"

subsection \<open>Sorting\<close>

text \<open>
  \<^verbatim>\<open>sort.SliceStable\<close> of Go's standard library, by its contract: the slice is sorted by the
  comparison \<open>lt\<close> and elements that \<open>lt\<close> does not separate keep their order. The model is
  the insertion sort that goes through the slice from its end and puts each element in
  front of the first element that is not smaller.
\<close>

fun insertStable :: "('a \<Rightarrow> 'a \<Rightarrow> bool) \<Rightarrow> 'a \<Rightarrow> 'a list \<Rightarrow> 'a list" where
  "insertStable lt a [] = [a]"
| "insertStable lt a (b # bs) =
    (if lt b a then b # insertStable lt a bs else a # b # bs)"

fun SliceStable :: "('a \<Rightarrow> 'a \<Rightarrow> bool) \<Rightarrow> 'a list \<Rightarrow> 'a list" where
  "SliceStable lt [] = []"
| "SliceStable lt (a # as) = insertStable lt a (SliceStable lt as)"

text \<open>
  \<^verbatim>\<open>sortRows\<close>: the early return on NoSort, then the switch that picks the comparison.
  Go compares strings byte by byte, a proper prefix being smaller: the order of
  \<open>char list\<close>.
\<close>

definition sortRows :: "ContainersWidget \<Rightarrow> ContainersWidget" where
  "sortRows s =
    (case sortMode s of
       NoSort \<Rightarrow> s
     | SortByContainerID \<Rightarrow>
         s\<lparr>containers := SliceStable (\<lambda>ri rj. IDText ri < IDText rj) (containers s)\<rparr>
     | SortByImage \<Rightarrow>
         s\<lparr>containers := SliceStable (\<lambda>ri rj. ImageText ri < ImageText rj) (containers s)\<rparr>
     | SortByStatus \<Rightarrow>
         s\<lparr>containers := SliceStable (\<lambda>ri rj. StatusText ri < StatusText rj) (containers s)\<rparr>
     | SortByName \<Rightarrow>
         s\<lparr>containers := SliceStable (\<lambda>ri rj. NamesText ri < NamesText rj) (containers s)\<rparr>)"

subsection \<open>Row count, selection and header\<close>

text \<open>\<^verbatim>\<open>RowCount\<close>: it reads the slice and touches neither the lock nor any field.\<close>

definition RowCount :: "ContainersWidget \<Rightarrow> goint \<times> ContainersWidget" where
  "RowCount s = (len (containers s), s)"

text \<open>
  The loop of \<^verbatim>\<open>highlightSelectedRow\<close> over the rows, \<open>i\<close> being the loop index.
\<close>

fun highlightRows :: "goint \<Rightarrow> goint \<Rightarrow> ContainerRow list \<Rightarrow> ContainerRow list" where
  "highlightRows index i [] = []"
| "highlightRows index i (c # cs) =
    (if i \<noteq> index then c\<lparr>highlighted := False\<rparr> else c\<lparr>highlighted := True\<rparr>)
      # highlightRows index (i + 1) cs"

text \<open>
  \<^verbatim>\<open>highlightSelectedRow\<close>; \<open>position\<close> is the value read from
  \<^verbatim>\<open>ui.ActiveScreen.Cursor.Position()\<close>.
\<close>

definition highlightSelectedRow :: "goint \<Rightarrow> ContainersWidget \<Rightarrow> ContainersWidget" where
  "highlightSelectedRow position s =
    (if fst (RowCount s) = 0 then s
     else
       let index = (if fst (RowCount s) <s position then fst (RowCount s) - 1 else position)
       in s\<lparr>selectedIndex := index, containers := highlightRows index 0 (containers s)\<rparr>)"

text \<open>
  One round of the loop of \<^verbatim>\<open>updateTableHeader\<close>, on the text of one column. The
  constants \<^verbatim>\<open>DownArrow\<close> and \<^verbatim>\<open>DownArrowLength\<close> are declared outside this file and are
  the parameters \<open>downArrow\<close> and \<open>downArrowLength\<close>. A title found in no entry of the
  table leaves \<^verbatim>\<open>header\<close> at its zero value, whose mode is NoSort. The header holds
  its columns by pointer (the spec has the titles changed in place), so the assignment to
  \<^verbatim>\<open>c.Text\<close> writes the header.
\<close>

definition updateColumn :: "string \<Rightarrow> nat \<Rightarrow> SortMode \<Rightarrow> string \<Rightarrow> Panic + string" where
  "updateColumn downArrow downArrowLength mode text =
    (let stripped =
       (if contains text downArrow then
          (if downArrowLength \<le> length text then Inr (drop downArrowLength text)
           else Inl SliceBoundsOutOfRange)
        else Inr text)
     in case stripped of
          Inl p \<Rightarrow> Inl p
        | Inr colTitle \<Rightarrow>
            let hdr = (case find (\<lambda>h. colTitle = Title h) containerTableHeaders of
                         Some h \<Rightarrow> h
                       | None \<Rightarrow> \<lparr>Title = [], Mode = NoSort\<rparr>)
            in if Mode hdr = mode then Inr (downArrow @ colTitle) else Inr colTitle)"

text \<open>The loop over the columns: a panic leaves the columns before it updated.\<close>

fun updateColumns :: "string \<Rightarrow> nat \<Rightarrow> SortMode \<Rightarrow> string list \<Rightarrow> Panic option \<times> string list"
where
  "updateColumns downArrow downArrowLength mode [] = (None, [])"
| "updateColumns downArrow downArrowLength mode (c # cs) =
    (case updateColumn downArrow downArrowLength mode c of
       Inl p \<Rightarrow> (Some p, c # cs)
     | Inr c' \<Rightarrow>
         (case updateColumns downArrow downArrowLength mode cs of
            (r, cs') \<Rightarrow> (r, c' # cs')))"

definition updateTableHeader ::
  "string \<Rightarrow> nat \<Rightarrow> ContainersWidget \<Rightarrow> Panic option \<times> ContainersWidget"
where
  "updateTableHeader downArrow downArrowLength s =
    (case updateColumns downArrow downArrowLength (sortMode s) (header s) of
       (r, h) \<Rightarrow> (r, s\<lparr>header := h\<rparr>))"

text \<open>
  \<^verbatim>\<open>containerTableHeader\<close> builds the header from the titles of the table, in order.
\<close>

definition containerTableHeader :: "string list" where
  "containerTableHeader = map Title containerTableHeaders"

subsection \<open>The lock\<close>

text \<open>
  \<^verbatim>\<open>Lock\<close> on a mutex that is held does not return in a sequential run: the call has no
  result. \<^verbatim>\<open>Unlock\<close> is only ever called by a deferred call that follows \<^verbatim>\<open>Lock\<close>.
\<close>

definition Lock :: "ContainersWidget \<Rightarrow> ContainersWidget option" where
  "Lock s =
    (if lockHeld s then None
     else Some (s\<lparr>lockHeld := True, lockTrace := lockTrace s @ [Acquire]\<rparr>))"

definition Unlock :: "ContainersWidget \<Rightarrow> ContainersWidget" where
  "Unlock s = s\<lparr>lockHeld := False, lockTrace := lockTrace s @ [Release]\<rparr>"

text \<open>
  A statement of a method body reads or writes the struct: the history notes whether the
  lock is held while it runs.
\<close>

definition touch :: "ContainersWidget \<Rightarrow> ContainersWidget" where
  "touch s = s\<lparr>lockTrace := lockTrace s @ [Touch (lockHeld s)]\<rparr>"

text \<open>
  The opening \<^verbatim>\<open>s.Lock(); defer s.Unlock()\<close> of a method: the body runs after
  \<^verbatim>\<open>Lock\<close> has returned, and the deferred call runs when the body returns or panics.
\<close>

definition withLock ::
  "(ContainersWidget \<Rightarrow> 'a \<times> ContainersWidget) \<Rightarrow> ContainersWidget
    \<Rightarrow> ('a \<times> ContainersWidget) option"
where
  "withLock body s =
    (case Lock s of
       None \<Rightarrow> None
     | Some s1 \<Rightarrow> (case body s1 of (r, s2) \<Rightarrow> Some (r, Unlock s2)))"

subsection \<open>The public methods\<close>

text \<open>
  \<^verbatim>\<open>NewContainersWidget\<close>. The widget gets the pointer \<^verbatim>\<open>defaultContainerTableHeader\<close>:
  its header is the shared header, with the texts that the renders of all widgets so far
  have left in it, the parameter \<open>defaultHeader\<close> (for the first widget of the program,
  \<open>containerTableHeader\<close>). The available height and the width of the screen are
  parameters too. The fields not named in the literal have their zero values.
\<close>

definition NewContainersWidget ::
  "string list \<Rightarrow> goint \<Rightarrow> goint \<Rightarrow> goint \<Rightarrow> ContainersWidget"
where
  "NewContainersWidget defaultHeader y0 availableHeight screenWidth =
    \<lparr>containers = [], showAllContainers = False, header = defaultHeader,
     sortMode = SortByContainerID, filterPattern = [], mounted = False,
     selectedIndex = 0, x = 0, y = y0, height = availableHeight, width = screenWidth,
     startIndex = 0, endIndex = 0, lockHeld = False, lockTrace = []\<rparr>"

datatype ContainerFilter = Unfiltered | Running

text \<open>
  \<^verbatim>\<open>Mount\<close>. \<open>daemon\<close> is \<^verbatim>\<open>dockerDaemon.Containers\<close> and \<open>newRow\<close> is
  \<^verbatim>\<open>NewContainerRow\<close>, both declared outside this file. \<^verbatim>\<open>align\<close> only sets the
  geometry of header and rows. The method returns the nil error. Here and in the methods
  below, each statement of the body that reads or writes the struct is a \<open>touch\<close>.
\<close>

definition Mount ::
  "(ContainerFilter list \<Rightarrow> SortMode \<Rightarrow> 'c list) \<Rightarrow> ('c \<Rightarrow> string list \<Rightarrow> ContainerRow)
    \<Rightarrow> ContainersWidget \<Rightarrow> (GoError option \<times> ContainersWidget) option"
where
  "Mount daemon newRow =
    withLock (\<lambda>s.
      let s0 = touch s \<comment> \<open>\<^verbatim>\<open>if !s.mounted\<close>\<close>
      in if \<not> mounted s0 then
           let s1 = touch s0; \<comment> \<open>\<^verbatim>\<open>if s.showAllContainers\<close>\<close>
               filters = (if showAllContainers s1 then [Unfiltered] else [Running]);
               s2 = touch s1; \<comment> \<open>\<^verbatim>\<open>s.dockerDaemon.Containers(filters, s.sortMode)\<close>\<close>
               dockerContainers = daemon filters (sortMode s2);
               s3 = touch s2; \<comment> \<open>\<^verbatim>\<open>NewContainerRow(container, s.header)\<close>\<close>
               rows = map (\<lambda>container. newRow container (header s3)) dockerContainers;
               s4 = (touch s3)\<lparr>containers := rows\<rparr>;
               s5 = (touch s4)\<lparr>mounted := True\<rparr>;
               s6 = touch s5 \<comment> \<open>\<^verbatim>\<open>s.align()\<close>\<close>
           in (None, s6)
         else (None, s0))"

definition Unmount :: "ContainersWidget \<Rightarrow> (GoError option \<times> ContainersWidget) option" where
  "Unmount = withLock (\<lambda>s. (None, (touch s)\<lparr>mounted := False\<rparr>))"

definition Filter :: "string \<Rightarrow> ContainersWidget \<Rightarrow> (unit \<times> ContainersWidget) option" where
  "Filter pattern = withLock (\<lambda>s. ((), (touch s)\<lparr>filterPattern := pattern\<rparr>))"

definition Sort :: "ContainersWidget \<Rightarrow> (unit \<times> ContainersWidget) option" where
  "Sort =
    withLock (\<lambda>s.
      let s0 = touch s \<comment> \<open>\<^verbatim>\<open>switch s.sortMode\<close> and the assignment of its case\<close>
      in ((), (case sortMode s0 of
                 SortByContainerID \<Rightarrow> s0\<lparr>sortMode := SortByImage\<rparr>
               | SortByImage \<Rightarrow> s0\<lparr>sortMode := SortByStatus\<rparr>
               | SortByStatus \<Rightarrow> s0\<lparr>sortMode := SortByName\<rparr>
               | SortByName \<Rightarrow> s0\<lparr>sortMode := SortByContainerID\<rparr>
               | NoSort \<Rightarrow> s0)))"

definition ToggleShowAllContainers :: "ContainersWidget \<Rightarrow> (unit \<times> ContainersWidget) option"
where
  "ToggleShowAllContainers =
    withLock (\<lambda>s.
      let s0 = (touch s)\<lparr>showAllContainers := \<not> showAllContainers s\<rparr>;
          s1 = (touch s0)\<lparr>mounted := False\<rparr>
      in ((), s1))"

text \<open>
  \<^verbatim>\<open>OnEvent\<close>. \<open>event\<close> is the \<^verbatim>\<open>EventCommand\<close> of the caller, a function from the
  container identifier to an error or nil. The second component of the result lists the
  arguments \<open>event\<close> was called with. The method contains no call of \<^verbatim>\<open>Lock\<close> or
  \<^verbatim>\<open>Unlock\<close>.
\<close>

definition OnEvent ::
  "(string \<Rightarrow> GoError option) \<Rightarrow> ContainersWidget
    \<Rightarrow> ((Panic + GoError option) \<times> string list) \<times> ContainersWidget"
where
  "OnEvent event s =
    (if 0 <s len (containers s) then
       (case elemAt (containers s) (selectedIndex s) of
          Inl p \<Rightarrow> ((Inl p, []), s)
        | Inr row \<Rightarrow> ((Inr (event (containerID row)), [containerID row]), s))
     else ((Inr (Some (ErrorString ''The container list is empty'')), []), s))"

text \<open>
  What \<^verbatim>\<open>Buffer\<close> draws: nothing when the widget is not mounted; otherwise the widget
  header (its title, the row count and the filter caption), the texts of the table header
  and the visible rows from top to bottom.
\<close>

datatype Screen = Blank | Drawn string goint string "string list" "ContainerRow list"

text \<open>
  \<^verbatim>\<open>Buffer\<close>. The cursor is read twice, by \<^verbatim>\<open>highlightSelectedRow\<close> and by
  \<^verbatim>\<open>visibleRows\<close>: \<open>position1\<close> and \<open>position2\<close>.
\<close>

definition Buffer ::
  "string \<Rightarrow> nat \<Rightarrow> (string \<Rightarrow> ContainerRow list \<Rightarrow> ContainerRow list) \<Rightarrow> goint \<Rightarrow> goint
    \<Rightarrow> ContainersWidget \<Rightarrow> ((Panic + Screen) \<times> ContainersWidget) option"
where
  "Buffer downArrow downArrowLength byName position1 position2 =
    withLock (\<lambda>s.
      let s0 = touch s \<comment> \<open>\<^verbatim>\<open>if s.mounted\<close>\<close>
      in if mounted s0 then
           let s1 = touch s0; \<comment> \<open>\<^verbatim>\<open>y := s.y\<close>\<close>
               s2 = sortRows (touch s1);
               s3 = touch s2; \<comment> \<open>the test of \<^verbatim>\<open>s.filterPattern\<close>\<close>
               caption =
                 (if filterPattern s3 \<noteq> [] then
                    ''<b><blue> | Container name filter: </><yellow>'' @ filterPattern s3
                      @ ''</></> ''
                  else []);
               s4 = touch s3; \<comment> \<open>\<^verbatim>\<open>s.RowCount()\<close> for the widget header\<close>
               rowCount = fst (RowCount s4);
               s5 = touch s4 \<comment> \<open>\<^verbatim>\<open>s.header.SetY(y)\<close>\<close>
           in case updateTableHeader downArrow downArrowLength (touch s5) of
                (Some p, s6) \<Rightarrow> (Inl p, s6)
              | (None, s6) \<Rightarrow>
                  (let s7 = touch s6; \<comment> \<open>\<^verbatim>\<open>buf.Merge(s.header.Buffer())\<close>\<close>
                       s8 = touch s7; \<comment> \<open>\<^verbatim>\<open>y += s.header.GetHeight()\<close>\<close>
                       s9 = highlightSelectedRow position1 (touch s8)
                   in (case visibleRows byName position2 (touch s9) of
                         (Inl p, s10) \<Rightarrow> (Inl p, s10)
                       | (Inr rows, s10) \<Rightarrow>
                           (Inr (Drawn ''Containers'' rowCount caption (header s10) rows),
                            s10)))
         else (Inr Blank, s0))"

subsection \<open>Notions used in the properties\<close>

text \<open>
  Modelled from the spec: the filter \<^verbatim>\<open>containerRowFilters.ByName\<close> is declared outside
  \<^verbatim>\<open>appui/containers.go\<close>. The spec describes it as keeping, in order, the rows whose name
  field contains the pattern as a substring. It instantiates the parameter \<open>byName\<close> in
  the examples.
\<close>

definition ByName :: "string \<Rightarrow> ContainerRow list \<Rightarrow> ContainerRow list" where
  "ByName pattern rows = filter (\<lambda>r. contains (NamesText r) pattern) rows"

text \<open>The field that a sort mode compares; NoSort compares nothing.\<close>

definition sortField :: "SortMode \<Rightarrow> ContainerRow \<Rightarrow> string" where
  "sortField m r =
    (case m of
       NoSort \<Rightarrow> []
     | SortByContainerID \<Rightarrow> IDText r
     | SortByImage \<Rightarrow> ImageText r
     | SortByStatus \<Rightarrow> StatusText r
     | SortByName \<Rightarrow> NamesText r)"

text \<open>
  The header after the renders so far: \<^verbatim>\<open>updateTableHeader\<close> is the only code that
  writes the texts of the columns, so the header of a widget is the one built by
  \<^verbatim>\<open>containerTableHeader\<close>, updated once per render under the sort mode of that render.
\<close>

definition headerAfter :: "string \<Rightarrow> nat \<Rightarrow> SortMode list \<Rightarrow> string list" where
  "headerAfter downArrow downArrowLength modes =
    foldl (\<lambda>h m. snd (updateColumns downArrow downArrowLength m h)) containerTableHeader modes"

text \<open>The header that carries the marker on the columns whose sort key is \<open>m\<close>.\<close>

definition markedHeader :: "string \<Rightarrow> SortMode \<Rightarrow> string list" where
  "markedHeader downArrow m =
    map (\<lambda>h. if Mode h = m then downArrow @ Title h else Title h) containerTableHeaders"

text \<open>
  The events of a call that holds the lock for its whole run: the first is the acquire,
  the last is the release, and every statement between them ran with the lock held.
\<close>

definition heldThroughout :: "LockEvent list \<Rightarrow> bool" where
  "heldThroughout es =
    (case es of
       [] \<Rightarrow> False
     | e # rest \<Rightarrow>
         e = Acquire \<and> rest \<noteq> [] \<and> last rest = Release
           \<and> list_all (\<lambda>t. t = Touch True) (butlast rest))"

text \<open>
  A call that started in state \<open>s\<close> returned, the events it added to the history are
  those of a call that holds the lock for its whole run, and the lock is free afterwards.
\<close>

definition holdsLockThroughout ::
  "ContainersWidget \<Rightarrow> ('a \<times> ContainersWidget) option \<Rightarrow> bool"
where
  "holdsLockThroughout s r =
    (case r of
       None \<Rightarrow> False
     | Some (v, s') \<Rightarrow>
         take (length (lockTrace s)) (lockTrace s') = lockTrace s
           \<and> heldThroughout (drop (length (lockTrace s)) (lockTrace s'))
           \<and> \<not> lockHeld s')"

text \<open>
  From \<open>s\<close> to \<open>s'\<close> the history grew by statements that ran with the lock held, and
  the lock is still held.
\<close>

definition touchedHeld :: "ContainersWidget \<Rightarrow> ContainersWidget \<Rightarrow> bool" where
  "touchedHeld s s' =
    (lockHeld s'
      \<and> take (length (lockTrace s)) (lockTrace s') = lockTrace s
      \<and> list_all (\<lambda>t. t = Touch True) (drop (length (lockTrace s)) (lockTrace s')))"

text \<open>
  Concrete inputs for the examples: a row, a mounted widget with \<open>n\<close> rows, height \<open>h\<close>
  and stored window bounds \<open>lo\<close> and \<open>hi\<close>, an event command that succeeds, the
  arrow U+2193 in UTF-8, a daemon with twenty running containers out of twenty-five, and
  a row constructor.
\<close>

definition exampleRow :: "string \<Rightarrow> ContainerRow" where
  "exampleRow name =
    \<lparr>containerID = name, IDText = name, ImageText = ''alpine'', StatusText = ''Up'',
     NamesText = name, highlighted = False\<rparr>"

definition exampleWidget :: "nat \<Rightarrow> goint \<Rightarrow> goint \<Rightarrow> goint \<Rightarrow> ContainersWidget" where
  "exampleWidget n h lo hi =
    (NewContainersWidget containerTableHeader 0 h 80)
      \<lparr>containers := replicate n (exampleRow ''web''), mounted := True,
       startIndex := lo, endIndex := hi\<rparr>"

definition exampleEvent :: "string \<Rightarrow> GoError option" where
  "exampleEvent containerId = None"

definition exampleArrow :: string where
  "exampleArrow = [CHR 0xE2, CHR 0x86, CHR 0x93]"

definition exampleDaemon :: "ContainerFilter list \<Rightarrow> SortMode \<Rightarrow> string list" where
  "exampleDaemon filters mode =
    (if filters = [Running] then replicate 20 ''web'' else replicate 25 ''web'')"

definition exampleNewRow :: "string \<Rightarrow> string list \<Rightarrow> ContainerRow" where
  "exampleNewRow container hdr = exampleRow container"

section \<open>Properties\<close>

subsection \<open>Arithmetic of Go integers\<close>

lemma sint_goint_lower: "- 9223372036854775808 \<le> sint (w :: goint)"
  using sint_ge [of w] by simp

lemma sint_goint_upper: "sint (w :: goint) < 9223372036854775808"
  using sint_lt [of w] by simp

lemma sint_add_goint:
  "- 9223372036854775808 \<le> sint a + sint b \<Longrightarrow> sint a + sint b < 9223372036854775808
    \<Longrightarrow> sint (a + b :: goint) = sint a + sint b"
  by (simp add: sint_word_ariths signed_take_bit_int_eq_self)

lemma sint_sub_goint:
  "- 9223372036854775808 \<le> sint a - sint b \<Longrightarrow> sint a - sint b < 9223372036854775808
    \<Longrightarrow> sint (a - b :: goint) = sint a - sint b"
  by (simp add: sint_word_ariths signed_take_bit_int_eq_self)

lemma sint_len: "length xs < 9223372036854775808 \<Longrightarrow> sint (len xs) = int (length xs)"
  by (simp add: len_def signed_of_nat signed_take_bit_int_eq_self)

lemmas example_defs =
  exampleWidget_def exampleRow_def NewContainersWidget_def applyFilters_def len_def
  sliceOf_def Let_def word_sle_eq word_sless_alt

subsection \<open>Filtering\<close>

text \<open>
  C9: with the empty filter pattern \<^verbatim>\<open>applyFilters\<close> returns the rows of the widget
  themselves, unchanged and in the same order, whatever the name filter is.
\<close>

theorem applyFilters_empty_pattern:
  "filterPattern s = [] \<Longrightarrow> applyFilters byName s = containers s"
  by (simp add: applyFilters_def)

theorem applyFilters_empty_pattern_witness:
  "filterPattern (exampleWidget 3 10 0 0) = []
    \<and> applyFilters ByName (exampleWidget 3 10 0 0) = replicate 3 (exampleRow ''web'')"
proof -
  have h: "filterPattern (exampleWidget 3 10 0 0) = []"
    by (simp add: exampleWidget_def NewContainersWidget_def)
  show ?thesis
    using h applyFilters_empty_pattern [OF h, of ByName]
    by (simp add: exampleWidget_def)
qed

subsection \<open>Event dispatch\<close>

text \<open>
  C4: on a widget without rows \<^verbatim>\<open>OnEvent\<close> returns the error "The container list is
  empty", calls the event command with no argument at all, and returns the widget as it
  was.
\<close>

theorem OnEvent_empty_collection:
  "containers s = [] \<Longrightarrow>
    OnEvent event s = ((Inr (Some (ErrorString ''The container list is empty'')), []), s)"
  by (simp add: OnEvent_def len_def)

theorem OnEvent_empty_collection_witness:
  "containers (NewContainersWidget containerTableHeader 0 10 80) = []
    \<and> OnEvent exampleEvent (NewContainersWidget containerTableHeader 0 10 80)
        = ((Inr (Some (ErrorString ''The container list is empty'')), []),
           NewContainersWidget containerTableHeader 0 10 80)"
proof -
  have h: "containers (NewContainersWidget containerTableHeader 0 10 80) = []"
    by (simp add: NewContainersWidget_def)
  show ?thesis
    using h OnEvent_empty_collection [OF h, of exampleEvent] by simp
qed

subsection \<open>Sorting\<close>

lemma insertStable_insort_key:
  "insertStable (\<lambda>a b. f a < f b) a bs = insort_key f a bs" for f :: "'a \<Rightarrow> 'k::linorder"
  by (induction bs) (auto simp: not_less)

lemma SliceStable_sort_key:
  "SliceStable (\<lambda>a b. f a < f b) as = sort_key f as" for f :: "'a \<Rightarrow> 'k::linorder"
  by (induction as) (simp_all add: insertStable_insort_key)

text \<open>
  On a comparison of keys the model of \<^verbatim>\<open>sort.SliceStable\<close> is the library's
  \<open>sort_key\<close>: its result is sorted and a permutation of the input.
\<close>

lemma sortRows_containers:
  "containers (sortRows s) =
    (if sortMode s = NoSort then containers s
     else SliceStable (\<lambda>ri rj. sortField (sortMode s) ri < sortField (sortMode s) rj)
            (containers s))"
  by (cases "sortMode s") (simp_all add: sortRows_def sortField_def)

lemma sortRows_sorted:
  "sortMode s \<noteq> NoSort \<Longrightarrow> sorted (map (sortField (sortMode s)) (containers (sortRows s)))"
  by (simp add: sortRows_containers SliceStable_sort_key)

lemma sortRows_permutation: "mset (containers (sortRows s)) = mset (containers s)"
  by (simp add: sortRows_containers SliceStable_sort_key)

lemma sortRows_other_fields:
  "sortRows s = s\<lparr>containers := containers (sortRows s)\<rparr>"
  by (cases "sortMode s") (simp_all add: sortRows_def)

text \<open>
  C8: \<^verbatim>\<open>sortRows\<close> is stable: for every key, the rows whose sort field has that key
  come out in the order they went in; and under NoSort the widget, its rows included, is
  left as it was.
\<close>

theorem sortRows_stable:
  "(sortMode s = NoSort \<longrightarrow> sortRows s = s) \<and>
   filter (\<lambda>r. sortField (sortMode s) r = k) (containers (sortRows s))
     = filter (\<lambda>r. sortField (sortMode s) r = k) (containers s)"
  by (simp add: sortRows_containers SliceStable_sort_key sort_key_stable) (simp add: sortRows_def)

theorem sortRows_stable_witness:
  "sortRows ((exampleWidget 0 10 0 0)
      \<lparr>sortMode := NoSort, containers := [exampleRow ''b'', exampleRow ''a'']\<rparr>)
    = (exampleWidget 0 10 0 0)
      \<lparr>sortMode := NoSort, containers := [exampleRow ''b'', exampleRow ''a'']\<rparr>
   \<and> filter (\<lambda>r. sortField SortByImage r = ''alpine'')
        (containers (sortRows ((exampleWidget 0 10 0 0)
           \<lparr>sortMode := SortByImage, containers := [exampleRow ''b'', exampleRow ''a'']\<rparr>)))
      = [exampleRow ''b'', exampleRow ''a'']"
  using sortRows_stable [of "(exampleWidget 0 10 0 0)
      \<lparr>sortMode := NoSort, containers := [exampleRow ''b'', exampleRow ''a'']\<rparr>" "[]"]
    sortRows_stable [of "(exampleWidget 0 10 0 0)
      \<lparr>sortMode := SortByImage, containers := [exampleRow ''b'', exampleRow ''a'']\<rparr>" "''alpine''"]
  by (simp add: exampleWidget_def exampleRow_def sortField_def)

subsection \<open>Rotation of the sort mode\<close>

text \<open>
  C6: \<^verbatim>\<open>Sort\<close> rotates ID, Image, Status, Name and back to ID: from
  SortByContainerID the first, second and third call give SortByImage, SortByStatus and
  SortByName, and the fourth gives SortByContainerID again; from a mode other than NoSort
  a call returns and the mode after it is not NoSort.
\<close>

theorem Sort_rotation:
  "\<not> lockHeld s \<Longrightarrow>
    (sortMode s = SortByContainerID \<longrightarrow>
       map_option (sortMode \<circ> snd) (Sort s) = Some SortByImage
     \<and> map_option (sortMode \<circ> snd) (Option.bind (Sort s) (Sort \<circ> snd)) = Some SortByStatus
     \<and> map_option (sortMode \<circ> snd)
         (Option.bind (Option.bind (Sort s) (Sort \<circ> snd)) (Sort \<circ> snd)) = Some SortByName
     \<and> map_option (sortMode \<circ> snd)
         (Option.bind (Option.bind (Option.bind (Sort s) (Sort \<circ> snd)) (Sort \<circ> snd))
            (Sort \<circ> snd)) = Some SortByContainerID)
    \<and> (sortMode s \<noteq> NoSort \<longrightarrow>
         (\<exists>s'. Sort s = Some ((), s') \<and> sortMode s' \<noteq> NoSort))"
  by (cases "sortMode s")
    (simp_all add: Sort_def withLock_def Lock_def Unlock_def touch_def Let_def)

theorem Sort_rotation_witness:
  "\<not> lockHeld (NewContainersWidget containerTableHeader 0 10 80)
    \<and> sortMode (NewContainersWidget containerTableHeader 0 10 80) = SortByContainerID
    \<and> map_option (sortMode \<circ> snd)
         (Option.bind (Option.bind (Option.bind (Sort (NewContainersWidget containerTableHeader 0 10 80))
            (Sort \<circ> snd)) (Sort \<circ> snd)) (Sort \<circ> snd)) = Some SortByContainerID
    \<and> map_option (sortMode \<circ> snd) (Sort (NewContainersWidget containerTableHeader 0 10 80)) \<noteq> Some NoSort"
proof -
  have h: "\<not> lockHeld (NewContainersWidget containerTableHeader 0 10 80)"
    by (simp add: NewContainersWidget_def)
  have m: "sortMode (NewContainersWidget containerTableHeader 0 10 80) = SortByContainerID"
    by (simp add: NewContainersWidget_def)
  show ?thesis
    using h m Sort_rotation [OF h] by auto
qed

subsection \<open>The viewport\<close>

lemma sliceOf_in_range:
  assumes "0 \<le> sint lo" "sint lo \<le> sint hi" "sint hi \<le> int (length xs)"
  shows "sliceOf xs lo hi = Inr (take (nat (sint hi - sint lo)) (drop (nat (sint lo)) xs))"
  using assms by (simp add: sliceOf_def word_sle_eq nat_diff_distrib)

lemma sint_zero_iff: "sint (w :: goint) = 0 \<longleftrightarrow> w = 0"
  by (simp add: signed_eq_0_iff)

text \<open>
  When more rows than the height are left after filtering, the stored window lies within
  the rows and has the size of the height, and the cursor is not negative,
  \<^verbatim>\<open>visibleRows\<close> stores a window of the same kind and returns the rows of it.
\<close>

lemma visibleRows_window_preserved:
  fixes s :: ContainersWidget and byName
  defines "rows \<equiv> applyFilters byName s"
  assumes n: "length rows < 9223372036854775808"
    and gt: "sint (height s) < int (length rows)"
    and h0: "0 \<le> sint (height s)"
    and lo: "0 \<le> sint (startIndex s)"
    and size: "sint (endIndex s) = sint (startIndex s) + sint (height s)"
    and hi: "sint (endIndex s) \<le> int (length rows)"
    and pos: "0 \<le> sint selected"
  shows "\<exists>lo' hi'.
    visibleRows byName selected s
      = (Inr (take (nat (sint (height s))) (drop (nat (sint lo')) rows)),
         s\<lparr>startIndex := lo', endIndex := hi'\<rparr>)
    \<and> 0 \<le> sint lo' \<and> sint hi' = sint lo' + sint (height s) \<and> sint hi' \<le> int (length rows)"
proof -
  have L: "sint (len rows) = int (length rows)"
    using n by (rule sint_len)
  have h: "\<not> height s <s 0"
    using h0 by (simp add: word_sless_alt)
  have c: "\<not> len rows \<le>s height s"
    using gt by (simp add: word_sle_eq L)
  have L1: "sint (len rows - 1) = int (length rows) - 1"
    using n sint_sub_goint [of "len rows" 1] by (simp add: L)
  have LH: "sint (len rows - height s) = int (length rows) - sint (height s)"
    using n h0 gt sint_sub_goint [of "len rows" "height s"] by (simp add: L)
  have step: "visibleRows byName selected s =
      (sliceOf rows (startIndex s') (endIndex s'), s')"
    if "s' = (if selected = 0 then
                 s\<lparr>startIndex := 0, endIndex := height s\<rparr>
               else if len rows - 1 \<le>s selected then
                 s\<lparr>startIndex := len rows - height s, endIndex := len rows\<rparr>
               else if selected = endIndex s then
                 s\<lparr>startIndex := startIndex s + 1, endIndex := endIndex s + 1\<rparr>
               else if selected \<le>s startIndex s then
                 s\<lparr>startIndex := startIndex s - 1, endIndex := endIndex s - 1\<rparr>
               else if endIndex s <s selected then
                 s\<lparr>startIndex := selected - height s, endIndex := selected\<rparr>
               else s)" for s'
    using h c that by (simp add: visibleRows_def Let_def rows_def)
  have fin: ?thesis
    if v: "visibleRows byName selected s
        = (sliceOf rows lo' hi', s\<lparr>startIndex := lo', endIndex := hi'\<rparr>)"
      and b: "0 \<le> sint lo'" "sint hi' = sint lo' + sint (height s)" "sint hi' \<le> int (length rows)"
    for lo' hi'
  proof -
    have "sliceOf rows lo' hi' = Inr (take (nat (sint (height s))) (drop (nat (sint lo')) rows))"
      using b h0 sliceOf_in_range [of lo' hi' rows] by simp
    then show ?thesis using v b by metis
  qed
  consider (first) "selected = 0"
    | (last) "selected \<noteq> 0" "len rows - 1 \<le>s selected"
    | (down) "selected \<noteq> 0" "\<not> len rows - 1 \<le>s selected" "selected = endIndex s"
    | (up) "selected \<noteq> 0" "\<not> len rows - 1 \<le>s selected" "selected \<noteq> endIndex s"
        "selected \<le>s startIndex s"
    | (jump) "selected \<noteq> 0" "\<not> len rows - 1 \<le>s selected" "selected \<noteq> endIndex s"
        "\<not> selected \<le>s startIndex s" "endIndex s <s selected"
    | (inside) "selected \<noteq> 0" "\<not> len rows - 1 \<le>s selected" "selected \<noteq> endIndex s"
        "\<not> selected \<le>s startIndex s" "\<not> endIndex s <s selected"
    by blast
  then show ?thesis
  proof cases
    case first
    show ?thesis
      by (rule fin [of 0 "height s"]) (use first step gt in simp_all)
  next
    case last
    show ?thesis
      by (rule fin [of "len rows - height s" "len rows"]) (use last step gt LH L in simp_all)
  next
    case down
    have e: "sint (endIndex s) < int (length rows) - 1"
      using down by (simp add: word_sle_eq L1)
    have 1: "sint (startIndex s + 1) = sint (startIndex s) + 1"
      using sint_add_goint [of "startIndex s" 1] lo e n size h0 by simp
    have 2: "sint (endIndex s + 1) = sint (endIndex s) + 1"
      using sint_add_goint [of "endIndex s" 1] lo e n size h0 by simp
    show ?thesis
      by (rule fin [of "startIndex s + 1" "endIndex s + 1"]) (use down step 1 2 lo size e in simp_all)
  next
    case up
    have "sint selected \<noteq> 0"
      using up(1) by (simp add: sint_zero_iff)
    then have p: "1 \<le> sint (startIndex s)"
      using up(4) pos by (simp add: word_sle_eq)
    have 1: "sint (startIndex s - 1) = sint (startIndex s) - 1"
      using sint_sub_goint [of "startIndex s" 1] p sint_goint_upper [of "startIndex s"] by simp
    have 2: "sint (endIndex s - 1) = sint (endIndex s) - 1"
      using sint_sub_goint [of "endIndex s" 1] p size h0 sint_goint_upper [of "endIndex s"] by simp
    show ?thesis
      by (rule fin [of "startIndex s - 1" "endIndex s - 1"]) (use up step 1 2 p size hi in simp_all)
  next
    case jump
    have e: "sint selected < int (length rows) - 1"
      using jump by (simp add: word_sle_eq L1)
    have g: "sint (endIndex s) < sint selected"
      using jump by (simp add: word_sless_alt)
    have 1: "sint (selected - height s) = sint selected - sint (height s)"
      using sint_sub_goint [of selected "height s"] g lo size h0 sint_goint_upper [of selected]
      by simp
    show ?thesis
      by (rule fin [of "selected - height s" selected]) (use jump step 1 g lo size e in simp_all)
  next
    case inside
    show ?thesis
      by (rule fin [of "startIndex s" "endIndex s"]) (use inside step lo size hi in simp_all)
  qed
qed

text \<open>
  C7: when the filtered rows are no more than the height, \<^verbatim>\<open>visibleRows\<close> returns all of
  them whatever the selection is, and it returns before it writes the bounds: the stored
  \<^verbatim>\<open>startIndex\<close> and \<^verbatim>\<open>endIndex\<close> stay as they were.
\<close>

theorem visibleRows_everything_fits:
  assumes "int (length (applyFilters byName s)) \<le> sint (height s)"
  shows "visibleRows byName selected s = (Inr (applyFilters byName s), s)"
proof -
  have n: "length (applyFilters byName s) < 9223372036854775808"
    using assms sint_goint_upper [of "height s"] by linarith
  have h: "\<not> height s <s 0"
    using assms by (simp add: word_sless_alt)
  have c: "len (applyFilters byName s) \<le>s height s"
    using assms by (simp add: word_sle_eq sint_len [OF n])
  show ?thesis
    using h c by (simp add: visibleRows_def Let_def)
qed

theorem visibleRows_everything_fits_witness:
  "int (length (applyFilters ByName (exampleWidget 3 10 5 15)))
      \<le> sint (height (exampleWidget 3 10 5 15))
    \<and> visibleRows ByName 7 (exampleWidget 3 10 5 15)
        = (Inr (replicate 3 (exampleRow ''web'')), exampleWidget 3 10 5 15)"
proof -
  have h: "int (length (applyFilters ByName (exampleWidget 3 10 5 15)))
      \<le> sint (height (exampleWidget 3 10 5 15))"
    by (simp add: example_defs)
  show ?thesis
    using h visibleRows_everything_fits [OF h, of 7]
    by (simp add: exampleWidget_def NewContainersWidget_def applyFilters_def)
qed

text \<open>
  C7, as stated, fails: with three rows, height ten and the stored window \<open>[5, 15)\<close> all
  three rows are returned, and the bounds after the call are still 5 and 15, not 0 and 3.
\<close>

theorem visibleRows_bounds_not_tracked:
  "int (length (applyFilters ByName (exampleWidget 3 10 5 15)))
      \<le> sint (height (exampleWidget 3 10 5 15))
    \<and> fst (visibleRows ByName 7 (exampleWidget 3 10 5 15))
        = Inr (applyFilters ByName (exampleWidget 3 10 5 15))
    \<and> startIndex (snd (visibleRows ByName 7 (exampleWidget 3 10 5 15))) = 5
    \<and> endIndex (snd (visibleRows ByName 7 (exampleWidget 3 10 5 15))) = 15
    \<and> \<not> (startIndex (snd (visibleRows ByName 7 (exampleWidget 3 10 5 15))) = 0
          \<and> endIndex (snd (visibleRows ByName 7 (exampleWidget 3 10 5 15)))
              = len (applyFilters ByName (exampleWidget 3 10 5 15)))"
  by (simp add: visibleRows_def example_defs)

text \<open>
  C10: when more rows than the height are left after filtering, the stored window
  \<open>[startIndex, endIndex)\<close> has the size of the height, and the cursor is at
  \<open>endIndex\<close>, not at 0 and before the last row, \<^verbatim>\<open>visibleRows\<close> stores the window
  \<open>[startIndex + 1, endIndex + 1)\<close>; neither addition wraps.
\<close>

theorem visibleRows_scroll_down:
  assumes n: "length (applyFilters byName s) < 9223372036854775808"
    and gt: "sint (height s) < int (length (applyFilters byName s))"
    and win: "sint (startIndex s) \<le> sint (endIndex s)"
    and size: "sint (endIndex s) - sint (startIndex s) = sint (height s)"
    and sel: "selected = endIndex s"
    and nz: "selected \<noteq> 0"
    and nl: "sint selected < int (length (applyFilters byName s)) - 1"
  shows "snd (visibleRows byName selected s)
           = s\<lparr>startIndex := startIndex s + 1, endIndex := endIndex s + 1\<rparr>
    \<and> sint (startIndex s + 1) = sint (startIndex s) + 1
    \<and> sint (endIndex s + 1) = sint (endIndex s) + 1"
proof -
  have h: "\<not> height s <s 0"
    using win size by (simp add: word_sless_alt)
  have c: "\<not> len (applyFilters byName s) \<le>s height s"
    using gt by (simp add: word_sle_eq sint_len [OF n])
  have "sint (len (applyFilters byName s) - 1) = int (length (applyFilters byName s)) - 1"
    using n sint_sub_goint [of "len (applyFilters byName s)" 1] by (simp add: sint_len [OF n])
  then have e: "\<not> len (applyFilters byName s) - 1 \<le>s selected"
    using nl by (simp add: word_sle_eq)
  have 1: "snd (visibleRows byName selected s)
           = s\<lparr>startIndex := startIndex s + 1, endIndex := endIndex s + 1\<rparr>"
    using h c e nz sel by (simp add: visibleRows_def Let_def)
  have 2: "sint (endIndex s + 1) = sint (endIndex s) + 1"
    using sint_add_goint [of "endIndex s" 1] sint_goint_lower [of "endIndex s"] nl n sel by simp
  have 3: "sint (startIndex s + 1) = sint (startIndex s) + 1"
    using sint_add_goint [of "startIndex s" 1] sint_goint_lower [of "startIndex s"] nl n sel win
    by simp
  show ?thesis
    using 1 2 3 by simp
qed

theorem visibleRows_scroll_down_witness:
  "snd (visibleRows ByName 15 (exampleWidget 20 10 5 15)) = exampleWidget 20 10 6 16
    \<and> fst (visibleRows ByName 15 (exampleWidget 20 10 5 15))
        = Inr (replicate 10 (exampleRow ''web''))"
proof -
  have "snd (visibleRows ByName 15 (exampleWidget 20 10 5 15))
           = (exampleWidget 20 10 5 15)
               \<lparr>startIndex := startIndex (exampleWidget 20 10 5 15) + 1,
                endIndex := endIndex (exampleWidget 20 10 5 15) + 1\<rparr>"
    using visibleRows_scroll_down [of ByName "exampleWidget 20 10 5 15" 15]
    by (simp add: example_defs)
  then have "snd (visibleRows ByName 15 (exampleWidget 20 10 5 15)) = exampleWidget 20 10 6 16"
    by (simp add: exampleWidget_def)
  moreover have "fst (visibleRows ByName 15 (exampleWidget 20 10 5 15))
        = Inr (replicate 10 (exampleRow ''web''))"
    by (simp add: visibleRows_def example_defs)
  ultimately show ?thesis by simp
qed

text \<open>
  The first \<^verbatim>\<open>Mount\<close> of a new widget of height ten, on a daemon with twenty running
  containers, gives the widget of the next example.
\<close>

lemma Mount_fresh_widget:
  "Mount exampleDaemon exampleNewRow (NewContainersWidget containerTableHeader 0 10 80)
    = Some (None, (exampleWidget 20 10 0 0)
        \<lparr>lockTrace := Acquire # replicate 7 (Touch True) @ [Release]\<rparr>)"
  by (simp add: Mount_def withLock_def Lock_def Unlock_def touch_def exampleDaemon_def
      exampleNewRow_def exampleWidget_def NewContainersWidget_def Let_def numeral_eq_Suc)

text \<open>
  C1: the bounds do not always lie within the rows. On a widget as \<^verbatim>\<open>Mount\<close> leaves it
  after \<^verbatim>\<open>NewContainersWidget\<close> (twenty rows, height ten, both bounds zero) and with the
  cursor at 5, \<^verbatim>\<open>visibleRows\<close> takes the branch for a jump past the window, stores
  \<open>startIndex = -5\<close> and \<open>endIndex = 5\<close>, and the slice expression panics.
\<close>

theorem visibleRows_first_render_out_of_range:
  "visibleRows ByName 5 (exampleWidget 20 10 0 0)
    = (Inl SliceBoundsOutOfRange, (exampleWidget 20 10 0 0)\<lparr>startIndex := - 5, endIndex := 5\<rparr>)
   \<and> sint (- 5 :: goint) = - 5"
  by (simp add: visibleRows_def example_defs)

text \<open>
  The stored window is not checked against the rows of the current call either: the
  window \<open>[10, 20)\<close> of twenty rows, kept while the cursor is inside it, is out of range
  once fifteen rows are left.
\<close>

lemma visibleRows_stale_window_out_of_range:
  "visibleRows ByName 12 (exampleWidget 15 10 10 20)
    = (Inl SliceBoundsOutOfRange, exampleWidget 15 10 10 20)"
  by (simp add: visibleRows_def example_defs)

subsection \<open>Selection highlight\<close>

text \<open>The loop marks the row whose index is \<open>index\<close> and no other.\<close>

lemma highlightRows_flags:
  "map highlighted (highlightRows index i cs)
    = map (\<lambda>k. i + of_nat k = index) [0..<length cs]"
proof (induction cs arbitrary: i)
  case Nil
  then show ?case by simp
next
  case (Cons c cs)
  have "[0..<length (c # cs)] = 0 # map Suc [0..<length cs]"
    by (simp add: upt_conv_Cons map_Suc_upt del: upt_Suc)
  then show ?case
    using Cons [of "i + 1"] by (simp add: comp_def add.assoc del: upt_Suc)
qed

lemma of_nat_eq_goint:
  "k < 9223372036854775808 \<Longrightarrow> n < 9223372036854775808
    \<Longrightarrow> (of_nat k :: goint) = of_nat n \<longleftrightarrow> k = n"
  by (simp add: word_of_nat_eq_iff take_bit_nat_eq_self)

text \<open>
  A cursor beyond the row count is clamped to the last row, and that row alone is
  highlighted.
\<close>

lemma highlightSelectedRow_clamped:
  assumes n: "length (containers s) < 9223372036854775808"
    and rows: "containers s \<noteq> []"
    and past: "int (length (containers s)) < sint position"
  shows "sint (selectedIndex (highlightSelectedRow position s)) = int (length (containers s)) - 1
    \<and> map highlighted (containers (highlightSelectedRow position s))
        = map (\<lambda>k. k = length (containers s) - 1) [0..<length (containers s)]"
proof -
  have L: "sint (len (containers s)) = int (length (containers s))"
    using n by (rule sint_len)
  have nz: "len (containers s) \<noteq> 0"
  proof
    assume "len (containers s) = 0"
    then have "sint (len (containers s)) = 0" by simp
    then show False using L rows by simp
  qed
  have gt: "len (containers s) <s position"
    using past by (simp add: word_sless_alt L)
  define m where "m = length (containers s) - 1"
  have idx: "len (containers s) - 1 = of_nat m"
    using rows by (cases "containers s") (simp_all add: len_def m_def)
  have sel: "sint (len (containers s) - 1) = int (length (containers s)) - 1"
    using sint_sub_goint [of "len (containers s)" 1] n by (simp add: L)
  have fl: "map (\<lambda>k. (0::goint) + of_nat k = len (containers s) - 1) [0..<length (containers s)]
      = map (\<lambda>k. k = length (containers s) - 1) [0..<length (containers s)]"
  proof (intro map_cong refl)
    fix k assume "k \<in> set [0..<length (containers s)]"
    then have k: "k < 9223372036854775808" using n by simp
    have q: "m < 9223372036854775808" using n by (simp add: m_def)
    have "(of_nat k :: goint) = of_nat m \<longleftrightarrow> k = m"
      using k q by (rule of_nat_eq_goint)
    then show "((0::goint) + of_nat k = len (containers s) - 1) = (k = length (containers s) - 1)"
      by (simp only: idx add_0 m_def)
  qed
  show ?thesis
    using nz gt sel fl
    by (simp add: highlightSelectedRow_def RowCount_def Let_def highlightRows_flags)
qed

text \<open>A cursor on a row selects and highlights that row alone.\<close>

lemma highlightSelectedRow_in_range:
  assumes n: "length (containers s) < 9223372036854775808"
    and lo: "0 \<le> sint position"
    and hi: "sint position < int (length (containers s))"
  shows "selectedIndex (highlightSelectedRow position s) = position
    \<and> map highlighted (containers (highlightSelectedRow position s))
        = map (\<lambda>k. int k = sint position) [0..<length (containers s)]"
proof -
  have L: "sint (len (containers s)) = int (length (containers s))"
    using n by (rule sint_len)
  have nz: "len (containers s) \<noteq> 0"
  proof
    assume "len (containers s) = 0"
    then have "sint (len (containers s)) = 0" by simp
    then show False using L hi lo by simp
  qed
  have gt: "\<not> len (containers s) <s position"
    using hi by (simp add: word_sless_alt L)
  have p: "position = of_nat (nat (sint position))"
    using lo by (simp add: of_nat_nat)
  have fl: "map (\<lambda>k. (0::goint) + of_nat k = position) [0..<length (containers s)]
      = map (\<lambda>k. int k = sint position) [0..<length (containers s)]"
  proof (intro map_cong refl)
    fix k assume "k \<in> set [0..<length (containers s)]"
    then have k: "k < 9223372036854775808" using n by simp
    have q: "nat (sint position) < 9223372036854775808"
      using sint_goint_upper [of position] lo by linarith
    have "(of_nat k :: goint) = of_nat (nat (sint position)) \<longleftrightarrow> k = nat (sint position)"
      using k q by (rule of_nat_eq_goint)
    moreover have "(k = nat (sint position)) = (int k = sint position)"
      using lo by linarith
    ultimately have "((of_nat k :: goint) = position) = (int k = sint position)"
      using p by simp
    then show "((0::goint) + of_nat k = position) = (int k = sint position)"
      by simp
  qed
  show ?thesis
    using nz gt fl
    by (simp add: highlightSelectedRow_def RowCount_def Let_def highlightRows_flags)
qed

text \<open>
  C2: with three rows and the cursor at 3, the test \<^verbatim>\<open>index > s.RowCount()\<close> is false, so
  the index is not clamped: \<^verbatim>\<open>selectedIndex\<close> becomes 3, which is no row, and no row is
  highlighted.
\<close>

theorem highlightSelectedRow_position_at_count:
  "fst (RowCount (exampleWidget 3 10 0 0)) = 3
    \<and> selectedIndex (highlightSelectedRow 3 (exampleWidget 3 10 0 0)) = 3
    \<and> map highlighted (containers (highlightSelectedRow 3 (exampleWidget 3 10 0 0)))
        = [False, False, False]"
  by (simp add: highlightSelectedRow_def RowCount_def example_defs numeral_3_eq_3)

subsection \<open>The header\<close>

lemma hasPrefix_append: "hasPrefix (p @ t) p"
  by (induction p) simp_all

lemma hasPrefix_contains: "hasPrefix t p \<Longrightarrow> contains t p"
  by (cases t; cases p) simp_all

lemma contains_append: "contains (p @ t) p"
  by (rule hasPrefix_contains) (rule hasPrefix_append)

lemma find_distinct_key:
  "distinct (map f xs) \<Longrightarrow> a \<in> set xs \<Longrightarrow> find (\<lambda>b. f a = f b) xs = Some a"
  by (induction xs) (auto simp: image_iff)

lemma distinct_titles: "distinct (map Title containerTableHeaders)"
  by (simp add: containerTableHeaders_def)

lemma find_title:
  "h \<in> set containerTableHeaders \<Longrightarrow>
    find (\<lambda>h'. Title h = Title h') containerTableHeaders = Some h"
  by (rule find_distinct_key [OF distinct_titles])

lemma updateColumn_title:
  assumes "h \<in> set containerTableHeaders" "\<not> contains (Title h) downArrow"
  shows "updateColumn downArrow (length downArrow) m (Title h)
    = Inr (if Mode h = m then downArrow @ Title h else Title h)"
  using assms by (simp add: updateColumn_def find_title)

lemma updateColumn_marked_title:
  assumes "h \<in> set containerTableHeaders"
  shows "updateColumn downArrow (length downArrow) m (downArrow @ Title h)
    = Inr (if Mode h = m then downArrow @ Title h else Title h)"
  using assms by (simp add: updateColumn_def find_title contains_append)

lemma updateColumns_map:
  "(\<And>h. h \<in> set hs \<Longrightarrow> updateColumn downArrow n m (f h) = Inr (g h)) \<Longrightarrow>
    updateColumns downArrow n m (map f hs) = (None, map g hs)"
  by (induction hs) simp_all

lemma updateColumns_initial:
  assumes "\<forall>h \<in> set containerTableHeaders. \<not> contains (Title h) downArrow"
  shows "updateColumns downArrow (length downArrow) m containerTableHeader
    = (None, markedHeader downArrow m)"
  unfolding containerTableHeader_def markedHeader_def
  by (rule updateColumns_map) (use assms updateColumn_title in blast)

lemma updateColumns_marked:
  assumes "\<forall>h \<in> set containerTableHeaders. \<not> contains (Title h) downArrow"
  shows "updateColumns downArrow (length downArrow) m (markedHeader downArrow m0)
    = (None, markedHeader downArrow m)"
  unfolding markedHeader_def
  by (rule updateColumns_map) (use assms updateColumn_title updateColumn_marked_title in auto)

lemma headerAfter_cases:
  assumes "\<forall>h \<in> set containerTableHeaders. \<not> contains (Title h) downArrow"
  shows "headerAfter downArrow (length downArrow) modes = containerTableHeader
    \<or> (\<exists>m0. headerAfter downArrow (length downArrow) modes = markedHeader downArrow m0)"
proof (induction modes rule: rev_induct)
  case Nil
  then show ?case by (simp add: headerAfter_def)
next
  case (snoc m modes)
  have "headerAfter downArrow (length downArrow) (modes @ [m])
      = snd (updateColumns downArrow (length downArrow) m
          (headerAfter downArrow (length downArrow) modes))"
    by (simp add: headerAfter_def)
  with snoc show ?case
    using updateColumns_initial [OF assms] updateColumns_marked [OF assms] by auto
qed

text \<open>
  C5: \<^verbatim>\<open>updateTableHeader\<close> is idempotent on the header of the widget. Whatever the
  sort modes of the earlier renders were, one call under the sort mode of the widget
  leaves the marker on exactly the columns whose sort key is that mode, on top of the
  bare title, and a second call changes nothing. \<^verbatim>\<open>DownArrowLength\<close> is the length of
  \<^verbatim>\<open>DownArrow\<close>, and \<^verbatim>\<open>DownArrow\<close> is a glyph that occurs in no title of the table.
\<close>

theorem updateTableHeader_idempotent:
  assumes len: "downArrowLength = length downArrow"
    and glyph: "\<forall>h \<in> set containerTableHeaders. \<not> contains (Title h) downArrow"
    and hdr: "header s = headerAfter downArrow downArrowLength modes"
  shows "updateTableHeader downArrow downArrowLength s
      = (None, s\<lparr>header := markedHeader downArrow (sortMode s)\<rparr>)
    \<and> updateTableHeader downArrow downArrowLength
        (snd (updateTableHeader downArrow downArrowLength s))
      = updateTableHeader downArrow downArrowLength s"
proof -
  have 1: "updateColumns downArrow downArrowLength m (header s)
      = (None, markedHeader downArrow m)" for m
    using headerAfter_cases [OF glyph, of modes] updateColumns_initial [OF glyph]
      updateColumns_marked [OF glyph] hdr len by auto
  have 2: "updateColumns downArrow downArrowLength m (markedHeader downArrow m0)
      = (None, markedHeader downArrow m)" for m m0
    using updateColumns_marked [OF glyph] len by simp
  show ?thesis
    by (simp add: updateTableHeader_def 1 2)
qed

theorem updateTableHeader_idempotent_witness:
  "updateTableHeader exampleArrow 3
      ((exampleWidget 0 10 0 0)\<lparr>header := headerAfter exampleArrow 3 [SortByImage]\<rparr>)
    = (None, (exampleWidget 0 10 0 0)
        \<lparr>header := [[], exampleArrow @ ''CONTAINER'', ''IMAGE'', ''COMMAND'', ''STATUS'',
                     ''PORTS'', ''NAMES'']\<rparr>)
   \<and> headerAfter exampleArrow 3 [SortByImage]
      = [[], ''CONTAINER'', exampleArrow @ ''IMAGE'', ''COMMAND'', ''STATUS'', ''PORTS'',
         ''NAMES'']"
proof -
  have len: "3 = length exampleArrow"
    by (simp add: exampleArrow_def)
  have glyph: "\<forall>h \<in> set containerTableHeaders. \<not> contains (Title h) exampleArrow"
    by (simp add: containerTableHeaders_def exampleArrow_def)
  have hdr: "header ((exampleWidget 0 10 0 0)\<lparr>header := headerAfter exampleArrow 3 [SortByImage]\<rparr>)
      = headerAfter exampleArrow 3 [SortByImage]"
    by simp
  have m: "sortMode (exampleWidget 0 10 0 0) = SortByContainerID"
    by (simp add: exampleWidget_def NewContainersWidget_def)
  have a: "headerAfter exampleArrow 3 [SortByImage]
      = [[], ''CONTAINER'', exampleArrow @ ''IMAGE'', ''COMMAND'', ''STATUS'', ''PORTS'',
         ''NAMES'']"
    using updateColumns_initial [OF glyph, of SortByImage]
    by (simp add: headerAfter_def len [symmetric] markedHeader_def containerTableHeaders_def)
  show ?thesis
    using updateTableHeader_idempotent [OF len glyph hdr] m a
    by (simp add: markedHeader_def containerTableHeaders_def)
qed

text \<open>
  The texts of the header are never anything but titles of the table, bare or marked. On
  a text that carries the marker twice a call would strip one marker and a second call
  the other.
\<close>

lemma updateColumn_two_markers:
  "updateColumn exampleArrow 3 SortByImage (exampleArrow @ exampleArrow @ ''X'')
      = Inr (exampleArrow @ ''X'')
    \<and> updateColumn exampleArrow 3 SortByImage (exampleArrow @ ''X'') = Inr ''X''"
  by (simp add: updateColumn_def exampleArrow_def containerTableHeaders_def)

subsection \<open>The lock\<close>

text \<open>
  The history of a call tells a method that holds the lock for its whole run from one
  that releases the lock before its body, that never releases it, or that touches the
  struct before taking it.
\<close>

lemma heldThroughout_examples:
  "heldThroughout [Acquire, Touch True, Touch True, Release]
    \<and> \<not> heldThroughout [Acquire, Release, Touch False]
    \<and> \<not> heldThroughout [Acquire, Touch True]
    \<and> \<not> heldThroughout [Touch False, Acquire, Touch True, Release]
    \<and> \<not> heldThroughout []"
  by (simp add: heldThroughout_def)

lemma touchedHeld_iff:
  "touchedHeld s s' \<longleftrightarrow>
    lockHeld s' \<and> (\<exists>ts. lockTrace s' = lockTrace s @ ts \<and> list_all (\<lambda>t. t = Touch True) ts)"
proof
  assume h: "touchedHeld s s'"
  then have "lockTrace s' = lockTrace s @ drop (length (lockTrace s)) (lockTrace s')"
    by (metis append_take_drop_id touchedHeld_def)
  with h show "lockHeld s' \<and> (\<exists>ts. lockTrace s' = lockTrace s @ ts
      \<and> list_all (\<lambda>t. t = Touch True) ts)"
    by (auto simp: touchedHeld_def)
next
  assume "lockHeld s' \<and> (\<exists>ts. lockTrace s' = lockTrace s @ ts
      \<and> list_all (\<lambda>t. t = Touch True) ts)"
  then show "touchedHeld s s'"
    by (auto simp: touchedHeld_def)
qed

lemma touchedHeld_refl: "lockHeld s \<Longrightarrow> touchedHeld s s"
  by (simp add: touchedHeld_def)

lemma touchedHeld_touch: "touchedHeld s s1 \<Longrightarrow> touchedHeld s (touch s1)"
  by (auto simp: touchedHeld_iff touch_def)

lemma touchedHeld_frame:
  "touchedHeld s s1 \<Longrightarrow> lockTrace s2 = lockTrace s1 \<Longrightarrow> lockHeld s2 = lockHeld s1
    \<Longrightarrow> touchedHeld s s2"
  by (simp add: touchedHeld_def)

lemma sortRows_lock: "lockTrace (sortRows s) = lockTrace s \<and> lockHeld (sortRows s) = lockHeld s"
  by (cases "sortMode s") (simp_all add: sortRows_def)

lemma updateTableHeader_lock:
  "lockTrace (snd (updateTableHeader downArrow n s)) = lockTrace s
    \<and> lockHeld (snd (updateTableHeader downArrow n s)) = lockHeld s"
  by (simp add: updateTableHeader_def split: prod.split)

lemma highlightSelectedRow_lock:
  "lockTrace (highlightSelectedRow position s) = lockTrace s
    \<and> lockHeld (highlightSelectedRow position s) = lockHeld s"
  by (simp add: highlightSelectedRow_def Let_def)

lemma visibleRows_lock:
  "lockTrace (snd (visibleRows byName selected s)) = lockTrace s
    \<and> lockHeld (snd (visibleRows byName selected s)) = lockHeld s"
  by (simp add: visibleRows_def Let_def)

lemma touchedHeld_sortRows: "touchedHeld s s1 \<Longrightarrow> touchedHeld s (sortRows s1)"
  by (rule touchedHeld_frame) (simp_all add: sortRows_lock)

lemma touchedHeld_updateTableHeader:
  "touchedHeld s s1 \<Longrightarrow> touchedHeld s (snd (updateTableHeader downArrow n s1))"
  by (rule touchedHeld_frame) (simp_all add: updateTableHeader_lock)

lemma touchedHeld_highlightSelectedRow:
  "touchedHeld s s1 \<Longrightarrow> touchedHeld s (highlightSelectedRow position s1)"
  by (rule touchedHeld_frame) (simp_all add: highlightSelectedRow_lock)

lemma touchedHeld_visibleRows:
  "touchedHeld s s1 \<Longrightarrow> touchedHeld s (snd (visibleRows byName selected s1))"
  by (rule touchedHeld_frame) (simp_all add: visibleRows_lock)

lemma withLock_holdsLockThroughout:
  assumes free: "\<not> lockHeld s"
    and body: "\<And>s1. lockHeld s1 \<Longrightarrow> touchedHeld s1 (snd (body s1))"
  shows "holdsLockThroughout s (withLock body s)"
proof -
  let ?s1 = "s\<lparr>lockHeld := True, lockTrace := lockTrace s @ [Acquire]\<rparr>"
  have "touchedHeld ?s1 (snd (body ?s1))"
    by (rule body) simp
  then obtain ts where ts: "lockTrace (snd (body ?s1)) = lockTrace s @ Acquire # ts"
      "list_all (\<lambda>t. t = Touch True) ts"
    by (auto simp: touchedHeld_iff)
  obtain r s2 where b: "body ?s1 = (r, s2)"
    by (cases "body ?s1")
  have "withLock body s = Some (r, Unlock s2)"
    using free b by (simp add: withLock_def Lock_def)
  moreover have "lockTrace (Unlock s2) = lockTrace s @ Acquire # ts @ [Release]"
    using ts b by (simp add: Unlock_def)
  moreover have "\<not> lockHeld (Unlock s2)"
    by (simp add: Unlock_def)
  ultimately show ?thesis
    using ts(2) by (simp add: holdsLockThroughout_def heldThroughout_def)
qed

lemma Buffer_lock:
  assumes "\<not> lockHeld s"
  shows "holdsLockThroughout s (Buffer downArrow n byName position1 position2 s)"
  unfolding Buffer_def
proof (rule withLock_holdsLockThroughout [OF assms])
  fix s1 :: ContainersWidget
  assume held: "lockHeld s1"
  define s5 where "s5 = touch (touch (touch (sortRows (touch (touch (touch s1))))))"
  define s6 where "s6 = snd (updateTableHeader downArrow n (touch s5))"
  define s9 where "s9 = highlightSelectedRow position1 (touch (touch (touch s6)))"
  define s10 where "s10 = snd (visibleRows byName position2 (touch s9))"
  have 0: "touchedHeld s1 (touch s1)"
    by (intro touchedHeld_touch touchedHeld_refl held)
  have 5: "touchedHeld s1 s5"
    unfolding s5_def by (intro touchedHeld_touch touchedHeld_sortRows touchedHeld_refl held)
  have 6: "touchedHeld s1 s6"
    unfolding s6_def by (intro touchedHeld_updateTableHeader touchedHeld_touch 5)
  have 9: "touchedHeld s1 s9"
    unfolding s9_def by (intro touchedHeld_highlightSelectedRow touchedHeld_touch 6)
  have 10: "touchedHeld s1 s10"
    unfolding s10_def by (intro touchedHeld_visibleRows touchedHeld_touch 9)
  show "touchedHeld s1 (snd (
      let s0 = touch s1
      in if mounted s0 then
           let s1 = touch s0;
               s2 = sortRows (touch s1);
               s3 = touch s2;
               caption =
                 (if filterPattern s3 \<noteq> [] then
                    ''<b><blue> | Container name filter: </><yellow>'' @ filterPattern s3
                      @ ''</></> ''
                  else []);
               s4 = touch s3;
               rowCount = fst (RowCount s4);
               s5 = touch s4
           in case updateTableHeader downArrow n (touch s5) of
                (Some p, s6) \<Rightarrow> (Inl p, s6)
              | (None, s6) \<Rightarrow>
                  (let s7 = touch s6;
                       s8 = touch s7;
                       s9 = highlightSelectedRow position1 (touch s8)
                   in (case visibleRows byName position2 (touch s9) of
                         (Inl p, s10) \<Rightarrow> (Inl p, s10)
                       | (Inr rows, s10) \<Rightarrow>
                           (Inr (Drawn ''Containers'' rowCount caption (header s10) rows),
                            s10)))
         else (Inr Blank, s0)))"
    using 0 6 10
    by (auto simp: Let_def s5_def s6_def s9_def s10_def
        split: prod.split option.split sum.split)
qed

text \<open>
  C3: called on a widget whose lock is free, each of \<^verbatim>\<open>Mount\<close>, \<^verbatim>\<open>Unmount\<close>,
  \<^verbatim>\<open>Buffer\<close>, \<^verbatim>\<open>Filter\<close>, \<^verbatim>\<open>Sort\<close> and \<^verbatim>\<open>ToggleShowAllContainers\<close> returns;
  it takes the lock before any statement of its body runs, every statement of its body
  runs with the lock held, and the release comes last, on the path that returns early
  and on the path that panics as on the others; the lock is free afterwards.
  \<^verbatim>\<open>RowCount\<close> touches neither the lock nor any other field.
\<close>

theorem locking_methods:
  "\<not> lockHeld s \<Longrightarrow>
    holdsLockThroughout s (Mount daemon newRow s)
    \<and> holdsLockThroughout s (Unmount s)
    \<and> holdsLockThroughout s (Buffer downArrow n byName position1 position2 s)
    \<and> holdsLockThroughout s (Filter pattern s)
    \<and> holdsLockThroughout s (Sort s)
    \<and> holdsLockThroughout s (ToggleShowAllContainers s)
    \<and> snd (RowCount s) = s"
proof -
  assume free: "\<not> lockHeld s"
  have t: "touchedHeld s1 (touch s1)" if "lockHeld s1" for s1
    by (intro touchedHeld_touch touchedHeld_refl that)
  have u: "touchedHeld s1 ((touch s1)\<lparr>mounted := b\<rparr>)" if "lockHeld s1" for s1 b
    by (rule touchedHeld_frame [OF t [OF that]]) simp_all
  have m: "holdsLockThroughout s (Mount daemon newRow s)"
    unfolding Mount_def
    by (rule withLock_holdsLockThroughout [OF free])
      (auto simp: Let_def touchedHeld_iff touch_def)
  have um: "holdsLockThroughout s (Unmount s)"
    unfolding Unmount_def
    by (rule withLock_holdsLockThroughout [OF free]) (simp add: u)
  have f: "holdsLockThroughout s (Filter pattern s)"
    unfolding Filter_def
    by (rule withLock_holdsLockThroughout [OF free]) (auto simp: touchedHeld_iff touch_def)
  have so: "holdsLockThroughout s (Sort s)"
    unfolding Sort_def
    by (rule withLock_holdsLockThroughout [OF free])
      (auto simp: Let_def touchedHeld_iff touch_def split: SortMode.split)
  have tg: "holdsLockThroughout s (ToggleShowAllContainers s)"
    unfolding ToggleShowAllContainers_def
    by (rule withLock_holdsLockThroughout [OF free])
      (auto simp: Let_def touchedHeld_iff touch_def)
  show ?thesis
    using m um f so tg Buffer_lock [OF free] by (simp add: RowCount_def)
qed

text \<open>
  Two renders of a mounted widget with three rows: one that draws (height ten) and one
  that panics in \<^verbatim>\<open>visibleRows\<close> (height two, cursor on the second row).
\<close>

lemma Buffer_render:
  "map_option fst (Buffer exampleArrow 3 ByName 1 1 (exampleWidget 3 10 0 0))
    = Some (Inr (Drawn ''Containers'' 3 []
        [[], exampleArrow @ ''CONTAINER'', ''IMAGE'', ''COMMAND'', ''STATUS'', ''PORTS'', ''NAMES'']
        [exampleRow ''web'', (exampleRow ''web'')\<lparr>highlighted := True\<rparr>, exampleRow ''web'']))"
  by (simp add: Buffer_def withLock_def Lock_def Unlock_def touch_def sortRows_def
      updateTableHeader_def updateColumn_def containerTableHeader_def containerTableHeaders_def
      exampleArrow_def highlightSelectedRow_def RowCount_def visibleRows_def example_defs
      numeral_3_eq_3)

lemma Buffer_panic:
  "map_option fst (Buffer exampleArrow 3 ByName 1 1 (exampleWidget 3 2 0 0))
    = Some (Inl SliceBoundsOutOfRange)"
  by (simp add: Buffer_def withLock_def Lock_def Unlock_def touch_def sortRows_def
      updateTableHeader_def updateColumn_def containerTableHeader_def containerTableHeaders_def
      exampleArrow_def highlightSelectedRow_def RowCount_def visibleRows_def example_defs
      numeral_3_eq_3)

theorem locking_methods_witness:
  "\<not> lockHeld (exampleWidget 3 2 0 0)
    \<and> map_option fst (Buffer exampleArrow 3 ByName 1 1 (exampleWidget 3 2 0 0))
        = Some (Inl SliceBoundsOutOfRange)
    \<and> holdsLockThroughout (exampleWidget 3 2 0 0)
        (Buffer exampleArrow 3 ByName 1 1 (exampleWidget 3 2 0 0))
    \<and> map_option fst (Buffer exampleArrow 3 ByName 1 1 (exampleWidget 3 10 0 0))
        = Some (Inr (Drawn ''Containers'' 3 []
            [[], exampleArrow @ ''CONTAINER'', ''IMAGE'', ''COMMAND'', ''STATUS'', ''PORTS'',
             ''NAMES'']
            [exampleRow ''web'', (exampleRow ''web'')\<lparr>highlighted := True\<rparr>,
             exampleRow ''web'']))
    \<and> holdsLockThroughout (exampleWidget 3 10 0 0)
        (Buffer exampleArrow 3 ByName 1 1 (exampleWidget 3 10 0 0))
    \<and> holdsLockThroughout (exampleWidget 3 10 0 0)
        (Mount exampleDaemon exampleNewRow (exampleWidget 3 10 0 0))
    \<and> holdsLockThroughout (NewContainersWidget containerTableHeader 0 10 80)
        (Mount exampleDaemon exampleNewRow (NewContainersWidget containerTableHeader 0 10 80))
    \<and> holdsLockThroughout (exampleWidget 3 10 0 0) (Sort (exampleWidget 3 10 0 0))"
proof -
  have h2: "\<not> lockHeld (exampleWidget 3 2 0 0)"
    by (simp add: exampleWidget_def NewContainersWidget_def)
  have h10: "\<not> lockHeld (exampleWidget 3 10 0 0)"
    by (simp add: exampleWidget_def NewContainersWidget_def)
  have h0: "\<not> lockHeld (NewContainersWidget containerTableHeader 0 10 80)"
    by (simp add: NewContainersWidget_def)
  note a = locking_methods [OF h2, of exampleDaemon exampleNewRow exampleArrow 3 ByName 1 1 "[]"]
  note b = locking_methods [OF h10, of exampleDaemon exampleNewRow exampleArrow 3 ByName 1 1 "[]"]
  note c = locking_methods [OF h0, of exampleDaemon exampleNewRow exampleArrow 3 ByName 1 1 "[]"]
  show ?thesis
    using h2 a b c by (simp only: Buffer_panic Buffer_render simp_thms)
qed

text \<open>
  C3, as stated, fails for \<^verbatim>\<open>RowCount\<close> and \<^verbatim>\<open>OnEvent\<close>: neither takes the lock,
  with rows or without.
\<close>

theorem RowCount_OnEvent_take_no_lock:
  "\<not> holdsLockThroughout (NewContainersWidget containerTableHeader 0 10 80)
        (Some (RowCount (NewContainersWidget containerTableHeader 0 10 80)))
    \<and> \<not> holdsLockThroughout (NewContainersWidget containerTableHeader 0 10 80)
        (Some (OnEvent exampleEvent (NewContainersWidget containerTableHeader 0 10 80)))
    \<and> \<not> holdsLockThroughout (exampleWidget 3 10 0 0)
        (Some (OnEvent exampleEvent (exampleWidget 3 10 0 0)))
    \<and> fst (OnEvent exampleEvent (exampleWidget 3 10 0 0)) = (Inr None, [''web''])"
  by (simp add: holdsLockThroughout_def heldThroughout_def RowCount_def OnEvent_def elemAt_def
      exampleEvent_def example_defs)

end
